theory Spec2Isabelle
  imports Main "HOL-Library.Sublist"
begin

section \<open>JavaScript values\<close>

text \<open>
  The values the script handles are the bodies of HTTP responses parsed by axios, and the
  object literals it builds from them. A number is modelled as an integer; strings are
  byte strings holding the UTF-8 text. The pairs of an object are listed in the order in
  which JavaScript enumerates the properties, each key once.
\<close>

datatype json =
    JUndefined
  | JNull
  | JBool bool
  | JNum int
  | JStr string
  | JArr "json list"
  | JObj "(string \<times> json) list"

text \<open>What a \<^verbatim>\<open>throw\<close> or a rejected promise carries: \<open>message\<close> is
  \<^verbatim>\<open>error.message\<close>, \<open>response_data\<close> is \<^verbatim>\<open>error.response?.data\<close>.\<close>

datatype js_error =
    Error string
  | TypeError string
  | AxiosError string json

fun message :: "js_error \<Rightarrow> string" where
  "message (Error m) = m"
| "message (TypeError m) = m"
| "message (AxiosError m d) = m"

fun response_data :: "js_error \<Rightarrow> json" where
  "response_data (Error m) = JUndefined"
| "response_data (TypeError m) = JUndefined"
| "response_data (AxiosError m d) = d"

text \<open>Truthiness, as \<^verbatim>\<open>if (v)\<close>, \<^verbatim>\<open>!v\<close>, \<^verbatim>\<open>a || b\<close> and \<^verbatim>\<open>a && b\<close> test it.\<close>

fun truthy :: "json \<Rightarrow> bool" where
  "truthy JUndefined = False"
| "truthy JNull = False"
| "truthy (JBool b) = b"
| "truthy (JNum n) = (n \<noteq> 0)"
| "truthy (JStr s) = (s \<noteq> [])"
| "truthy (JArr xs) = True"
| "truthy (JObj kvs) = True"

definition or_else :: "json \<Rightarrow> json \<Rightarrow> json" where
  "or_else a b = (if truthy a then a else b)"

text \<open>Property read \<^verbatim>\<open>v.k\<close>, for the property names the script uses (none of them is
  a built-in property of a string, number, boolean or array): a TypeError on
  \<^verbatim>\<open>undefined\<close> and \<^verbatim>\<open>null\<close>, \<^verbatim>\<open>undefined\<close> where the property is missing.\<close>

definition cannot_read :: "string \<Rightarrow> string \<Rightarrow> js_error" where
  "cannot_read what k =
     TypeError (''Cannot read properties of '' @ what @ '' (reading '' @ [CHR 0x27] @ k @ [CHR 0x27] @ '')'')"

fun get :: "json \<Rightarrow> string \<Rightarrow> js_error + json" where
  "get JUndefined k = Inl (cannot_read ''undefined'' k)"
| "get JNull k = Inl (cannot_read ''null'' k)"
| "get (JObj kvs) k = Inr (case map_of kvs k of None \<Rightarrow> JUndefined | Some v \<Rightarrow> v)"
| "get v k = Inr JUndefined"

text \<open>Sequencing of steps that may throw: the first exception ends the sequence.\<close>

definition and_then :: "js_error + 'a \<Rightarrow> ('a \<Rightarrow> js_error + 'b) \<Rightarrow> js_error + 'b" where
  "and_then r f = (case r of Inl e \<Rightarrow> Inl e | Inr x \<Rightarrow> f x)"

subsection \<open>Conversion to string\<close>

definition digit_char :: "nat \<Rightarrow> char" where
  "digit_char n = ''0123456789'' ! (n mod 10)"

function string_of_nat :: "nat \<Rightarrow> string" where
  "string_of_nat n =
     (if n < 10 then [digit_char n]
      else string_of_nat (n div 10) @ [digit_char n])"
  by pat_completeness auto
termination
  by (relation "measure id") auto

declare string_of_nat.simps [simp del]

definition string_of_int :: "int \<Rightarrow> string" where
  "string_of_int i = (if i < 0 then ''-'' @ string_of_nat (nat (- i)) else string_of_nat (nat i))"

fun join :: "string \<Rightarrow> string list \<Rightarrow> string" where
  "join sep [] = []"
| "join sep [x] = x"
| "join sep (x # y # ys) = x @ sep @ join sep (y # ys)"

text \<open>\<^verbatim>\<open>String(v)\<close>, which is also what a template literal does to an interpolated value.\<close>

fun toStr :: "json \<Rightarrow> string" where
  "toStr JUndefined = ''undefined''"
| "toStr JNull = ''null''"
| "toStr (JBool b) = (if b then ''true'' else ''false'')"
| "toStr (JNum n) = string_of_int n"
| "toStr (JStr s) = s"
| "toStr (JArr xs) = join '','' (map (\<lambda>x. if x = JUndefined \<or> x = JNull then [] else toStr x) xs)"
| "toStr (JObj kvs) = ''[object Object]''"

subsection \<open>JSON.stringify\<close>

definition hex_digit :: "nat \<Rightarrow> char" where
  "hex_digit n = ''0123456789abcdef'' ! (n mod 16)"

definition escape_char :: "char \<Rightarrow> string" where
  "escape_char c =
     (if c = CHR 0x22 then [CHR 0x5C, CHR 0x22]
      else if c = CHR 0x5C then [CHR 0x5C, CHR 0x5C]
      else if c = CHR 0x08 then [CHR 0x5C, CHR ''b'']
      else if c = CHR 0x09 then [CHR 0x5C, CHR ''t'']
      else if c = CHR 0x0A then [CHR 0x5C, CHR ''n'']
      else if c = CHR 0x0C then [CHR 0x5C, CHR ''f'']
      else if c = CHR 0x0D then [CHR 0x5C, CHR ''r'']
      else if (of_char c :: nat) < 32
        then [CHR 0x5C, CHR ''u'', CHR ''0'', CHR ''0'',
              hex_digit (of_char c div 16), hex_digit (of_char c)]
      else [c])"

definition quote :: "string \<Rightarrow> string" where
  "quote s = [CHR 0x22] @ concat (map escape_char s) @ [CHR 0x22]"

text \<open>
  \<open>ser gap ind v\<close> is SerializeJSONProperty with the indentation unit \<open>gap\<close> at the current
  indentation \<open>ind\<close>: \<open>None\<close> for \<^verbatim>\<open>undefined\<close>, which an array prints as
  \<^verbatim>\<open>null\<close> and an object leaves out with its key.
\<close>

fun ser :: "string \<Rightarrow> string \<Rightarrow> json \<Rightarrow> string option" where
  "ser gap ind JUndefined = None"
| "ser gap ind JNull = Some ''null''"
| "ser gap ind (JBool b) = Some (if b then ''true'' else ''false'')"
| "ser gap ind (JNum n) = Some (string_of_int n)"
| "ser gap ind (JStr s) = Some (quote s)"
| "ser gap ind (JArr xs) =
     (let partial = map (\<lambda>x. case ser gap (ind @ gap) x of None \<Rightarrow> ''null'' | Some t \<Rightarrow> t) xs
      in Some (if partial = [] then ''[]''
               else if gap = [] then ''['' @ join '','' partial @ '']''
               else ''['' @ [CHR 0x0A] @ ind @ gap
                    @ join ('','' @ [CHR 0x0A] @ ind @ gap) partial
                    @ [CHR 0x0A] @ ind @ '']''))"
| "ser gap ind (JObj kvs) =
     (let partial = concat (map (\<lambda>(k, v). case ser gap (ind @ gap) v of
                                   None \<Rightarrow> []
                                 | Some t \<Rightarrow> [quote k @ '':'' @ (if gap = [] then [] else '' '') @ t]) kvs)
      in Some (if partial = [] then ''{}''
               else if gap = [] then ''{'' @ join '','' partial @ ''}''
               else ''{'' @ [CHR 0x0A] @ ind @ gap
                    @ join ('','' @ [CHR 0x0A] @ ind @ gap) partial
                    @ [CHR 0x0A] @ ind @ ''}''))"

text \<open>\<^verbatim>\<open>JSON.stringify(v)\<close> is \<open>JSON_stringify [] v\<close>, and
  \<^verbatim>\<open>JSON.stringify(v, null, 2)\<close> is \<open>JSON_stringify ''  '' v\<close>.\<close>

definition JSON_stringify :: "string \<Rightarrow> json \<Rightarrow> json" where
  "JSON_stringify gap v = (case ser gap [] v of None \<Rightarrow> JUndefined | Some t \<Rightarrow> JStr t)"

section \<open>The clock and the configuration\<close>

text \<open>
  A \<^verbatim>\<open>Date\<close> object, by what the script reads from it: the calendar fields in the
  local time zone (\<open>getMonth\<close> counts from 0, as in JavaScript) and the text that
  \<^verbatim>\<open>toISOString()\<close> returns for the instant.
\<close>

record js_date =
  getFullYear :: nat
  getMonth :: nat
  getDate :: nat
  getHours :: nat
  getMinutes :: nat
  getSeconds :: nat
  toISOString :: string

definition pad2 :: "nat \<Rightarrow> string" where
  "pad2 n = (if n < 10 then ''0'' @ string_of_nat n else string_of_nat n)"

definition month_tr :: "nat \<Rightarrow> string" where
  "month_tr m =
     [''Ocak'', [CHR 0xC5, CHR 0x9E] @ ''ubat'', ''Mart'', ''Nisan'',
      ''May'' @ [CHR 0xC4, CHR 0xB1] @ ''s'', ''Haziran'', ''Temmuz'',
      ''A'' @ [CHR 0xC4, CHR 0x9F] @ ''ustos'', ''Eyl'' @ [CHR 0xC3, CHR 0xBC] @ ''l'', ''Ekim'',
      ''Kas'' @ [CHR 0xC4, CHR 0xB1] @ ''m'', ''Aral'' @ [CHR 0xC4, CHR 0xB1] @ ''k''] ! (m mod 12)"

text \<open>\<^verbatim>\<open>toLocaleDateString('tr-TR', {year: 'numeric', month: 'long', day: 'numeric'})\<close>\<close>

definition toLocaleDateString_long :: "js_date \<Rightarrow> string" where
  "toLocaleDateString_long d =
     string_of_nat (getDate d) @ '' '' @ month_tr (getMonth d) @ '' '' @ string_of_nat (getFullYear d)"

text \<open>\<^verbatim>\<open>toLocaleDateString('tr-TR')\<close>\<close>

definition toLocaleDateString :: "js_date \<Rightarrow> string" where
  "toLocaleDateString d =
     pad2 (getDate d) @ ''.'' @ pad2 (getMonth d + 1) @ ''.'' @ string_of_nat (getFullYear d)"

text \<open>\<^verbatim>\<open>toLocaleString('tr-TR')\<close>\<close>

definition toLocaleString :: "js_date \<Rightarrow> string" where
  "toLocaleString d =
     toLocaleDateString d @ '' '' @ pad2 (getHours d) @ '':'' @ pad2 (getMinutes d) @ '':''
       @ pad2 (getSeconds d)"

text \<open>
  \<^verbatim>\<open>process.env\<close> and the values computed from it when the script is loaded. A variable
  that is not set is \<open>None\<close>.
\<close>

record config =
  DIFY_API_KEY :: "string option"
  DIFY_API_ENDPOINT :: "string option"
  DIFY_RESPONSE_MODE :: "string option"
  DIFY_USER_ID :: "string option"
  COMPANY_NAME :: "string option"
  EMAIL_FROM_NAME :: "string option"
  EMAIL_USER :: "string option"
  emailList :: "string list"

text \<open>\<^verbatim>\<open>process.env.X || dflt\<close>: the default also replaces the empty string.\<close>

definition env_or :: "string option \<Rightarrow> string \<Rightarrow> string" where
  "env_or v dflt = (case v of None \<Rightarrow> dflt | Some s \<Rightarrow> if s = [] then dflt else s)"

text \<open>\<^verbatim>\<open>${process.env.X}\<close> inside a template literal.\<close>

definition env_str :: "string option \<Rightarrow> string" where
  "env_str v = (case v of None \<Rightarrow> ''undefined'' | Some s \<Rightarrow> s)"

section \<open>The outside world\<close>

text \<open>
  The workflow engine, the mail transport and the clock are outside the script. A \<open>world\<close>
  fixes what each of them answers: the \<open>k\<close>-th \<^verbatim>\<open>axios.post\<close>, \<^verbatim>\<open>axios.get\<close> and
  \<^verbatim>\<open>transporter.sendMail\<close> either resolves (\<open>Inr\<close>: the \<^verbatim>\<open>response.data\<close> of the
  request, the \<^verbatim>\<open>info\<close> object of the mail) or rejects (\<open>Inl\<close>), and the \<open>k\<close>-th
  \<^verbatim>\<open>new Date()\<close> is \<open>clock w k\<close>. The \<open>state\<close> counts the calls made so far and
  records every effect in the order in which it happens.
\<close>

record mail_options =
  mail_from :: string
  mail_to :: "string list"
  mail_subject :: string
  mail_html :: string

datatype event =
    ConsoleLog "json list"
  | ConsoleError "json list"
  | HttpPost string json "(string \<times> string) list"
  | HttpGet string "(string \<times> string) list"
  | Sleep int
  | SendMail mail_options

record world =
  post_results :: "nat \<Rightarrow> js_error + json"
  get_results :: "nat \<Rightarrow> js_error + json"
  mail_results :: "nat \<Rightarrow> js_error + json"
  clock :: "nat \<Rightarrow> js_date"

record state =
  posts :: nat
  gets :: nat
  mails :: nat
  ticks :: nat
  trace :: "event list"

definition console_log :: "json list \<Rightarrow> state \<Rightarrow> state" where
  "console_log args s = s\<lparr>trace := trace s @ [ConsoleLog args]\<rparr>"

definition console_error :: "json list \<Rightarrow> state \<Rightarrow> state" where
  "console_error args s = s\<lparr>trace := trace s @ [ConsoleError args]\<rparr>"

definition new_Date :: "world \<Rightarrow> state \<Rightarrow> js_date \<times> state" where
  "new_Date w s = (clock w (ticks s), s\<lparr>ticks := ticks s + 1\<rparr>)"

definition axios_post ::
  "world \<Rightarrow> string \<Rightarrow> json \<Rightarrow> (string \<times> string) list \<Rightarrow> state \<Rightarrow> (js_error + json) \<times> state" where
  "axios_post w url body headers s =
     (post_results w (posts s),
      s\<lparr>posts := posts s + 1, trace := trace s @ [HttpPost url body headers]\<rparr>)"

definition axios_get ::
  "world \<Rightarrow> string \<Rightarrow> (string \<times> string) list \<Rightarrow> state \<Rightarrow> (js_error + json) \<times> state" where
  "axios_get w url headers s =
     (get_results w (gets s),
      s\<lparr>gets := gets s + 1, trace := trace s @ [HttpGet url headers]\<rparr>)"

definition sendMail :: "world \<Rightarrow> mail_options \<Rightarrow> state \<Rightarrow> (js_error + json) \<times> state" where
  "sendMail w mailOptions s =
     (mail_results w (mails s),
      s\<lparr>mails := mails s + 1, trace := trace s @ [SendMail mailOptions]\<rparr>)"

text \<open>\<^verbatim>\<open>await new Promise(resolve => setTimeout(resolve, delayMs))\<close>\<close>

definition sleep :: "int \<Rightarrow> state \<Rightarrow> state" where
  "sleep delayMs s = s\<lparr>trace := trace s @ [Sleep delayMs]\<rparr>"

section \<open>triggerDifyWorkflow\<close>

text \<open>What the function does with \<^verbatim>\<open>response.data\<close> once the request has resolved.\<close>

definition handle_response :: "json \<Rightarrow> state \<Rightarrow> (js_error + json) \<times> state" where
  "handle_response data s =
     (case get data ''workflow_run_id'' of
        Inl e \<Rightarrow> (Inl e, s)
      | Inr run_id \<Rightarrow>
          let s' = console_log [JStr ''Workflow response received:'',
                                or_else run_id (JStr ''completed'')] s
          in (and_then (get data ''data'') (\<lambda>dd.
              and_then (if truthy dd
                        then and_then (get dd ''status'') (\<lambda>st. Inr (st = JStr ''succeeded''))
                        else Inr False) (\<lambda>blocking.
                if blocking then
                  and_then (get dd ''outputs'') (\<lambda>outputs.
                    Inr (JObj [(''workflow_run_id'', run_id),
                               (''outputs'', outputs),
                               (''status'', JStr ''succeeded'')]))
                else
                  and_then (get data ''task_id'') (\<lambda>task_id.
                    Inr (JObj [(''workflow_run_id'', run_id),
                               (''task_id'', task_id)])))), s'))"

definition triggerDifyWorkflow :: "config \<Rightarrow> world \<Rightarrow> state \<Rightarrow> (js_error + json) \<times> state" where
  "triggerDifyWorkflow cfg w s0 =
     (let s1 = console_log [JStr ''Triggering Dify workflow...''] s0;
          (d1, s2) = new_Date w s1;
          (d2, s3) = new_Date w s2;
          inputs = JObj [(''date'', JStr (toLocaleDateString d1)),
                         (''timestamp'', JStr (toISOString d2)),
                         (''report_type'', JStr ''daily'')];
          (response, s4) =
             axios_post w (env_str (DIFY_API_ENDPOINT cfg) @ ''/workflows/run'')
               (JObj [(''inputs'', inputs),
                      (''response_mode'', JStr (env_or (DIFY_RESPONSE_MODE cfg) ''blocking'')),
                      (''user'', JStr (env_or (DIFY_USER_ID cfg) ''daily-report-system''))])
               [(''Authorization'', ''Bearer '' @ env_str (DIFY_API_KEY cfg)),
                (''Content-Type'', ''application/json'')] s3;
          (r, s5) = (case response of
                       Inl e \<Rightarrow> (Inl e, s4)
                     | Inr data \<Rightarrow> handle_response data s4)
      in case r of
           Inl error \<Rightarrow>
             (Inl error,
              console_error [JStr ''Error triggering Dify workflow:'',
                             or_else (response_data error) (JStr (message error))] s5)
         | Inr result \<Rightarrow> (Inr result, s5))"

section \<open>waitForWorkflowCompletion\<close>

text \<open>
  One pass through the body of the \<^verbatim>\<open>for\<close> loop, its \<^verbatim>\<open>catch\<close> included:
  \<open>Inr (Some v)\<close> is \<^verbatim>\<open>return v\<close>, \<open>Inr None\<close> is the end of the body reached (the loop
  goes on with \<open>i + 1\<close>), \<open>Inl e\<close> is \<^verbatim>\<open>throw e\<close>.
\<close>

definition poll_once ::
  "config \<Rightarrow> world \<Rightarrow> json \<Rightarrow> int \<Rightarrow> int \<Rightarrow> nat \<Rightarrow> state \<Rightarrow> (js_error + json option) \<times> state" where
  "poll_once cfg w workflowRunId maxAttempts delayMs i s =
     (let (response, s1) =
             axios_get w (env_str (DIFY_API_ENDPOINT cfg) @ ''/workflows/run/'' @ toStr workflowRunId)
               [(''Authorization'', ''Bearer '' @ env_str (DIFY_API_KEY cfg))] s;
          (r, s2) =
            (case and_then response (\<lambda>data. and_then (get data ''status'') (\<lambda>status. Inr (data, status))) of
               Inl e \<Rightarrow> (Inl e, s1)
             | Inr (data, status) \<Rightarrow>
                 let s' = console_log
                            [JStr (''Checking workflow status: '' @ toStr status @ '' (attempt ''
                                   @ string_of_nat (i + 1) @ ''/'' @ string_of_int maxAttempts @ '')'')] s1
                 in if status = JStr ''succeeded'' then
                      (and_then (get data ''outputs'') (\<lambda>outputs.
                       and_then (get data ''elapsed_time'') (\<lambda>elapsed_time.
                       and_then (get data ''total_tokens'') (\<lambda>total_tokens.
                         Inr (Some (JObj [(''outputs'', outputs),
                                          (''status'', JStr ''succeeded''),
                                          (''elapsed_time'', elapsed_time),
                                          (''total_tokens'', total_tokens)]))))), s')
                    else if status = JStr ''failed'' \<or> status = JStr ''stopped'' then
                      (and_then (get data ''error'') (\<lambda>err.
                         Inl (Error (''Workflow '' @ toStr status @ '': ''
                                     @ toStr (or_else err (JStr ''Unknown error''))))), s')
                    else (Inr None, sleep delayMs s'))
      in case r of
           Inl error \<Rightarrow>
             (Inl error,
              console_error [JStr ''Error checking workflow status:'',
                             or_else (response_data error) (JStr (message error))] s2)
         | Inr v \<Rightarrow> (Inr v, s2))"

function poll_loop ::
  "config \<Rightarrow> world \<Rightarrow> json \<Rightarrow> int \<Rightarrow> int \<Rightarrow> nat \<Rightarrow> state \<Rightarrow> (js_error + json) \<times> state" where
  "poll_loop cfg w workflowRunId maxAttempts delayMs i s =
     (if int i < maxAttempts then
        (case poll_once cfg w workflowRunId maxAttempts delayMs i s of
           (Inl e, s') \<Rightarrow> (Inl e, s')
         | (Inr (Some v), s') \<Rightarrow> (Inr v, s')
         | (Inr None, s') \<Rightarrow> poll_loop cfg w workflowRunId maxAttempts delayMs (i + 1) s')
      else (Inl (Error ''Workflow timeout - exceeded maximum attempts''), s))"
  by pat_completeness auto
termination
  by (relation "measure (\<lambda>(cfg, w, workflowRunId, maxAttempts, delayMs, i, s). nat (maxAttempts - int i))")
     auto

declare poll_loop.simps [simp del]

definition waitForWorkflowCompletion ::
  "config \<Rightarrow> world \<Rightarrow> json \<Rightarrow> int \<Rightarrow> int \<Rightarrow> state \<Rightarrow> (js_error + json) \<times> state" where
  "waitForWorkflowCompletion cfg w workflowRunId maxAttempts delayMs s =
     (if \<not> truthy workflowRunId then (Inr JNull, s)
      else poll_loop cfg w workflowRunId maxAttempts delayMs 0 s)"

section \<open>formatReport\<close>

text \<open>The template literal of \<^verbatim>\<open>htmlContent\<close>, cut at its four interpolations.\<close>

definition html_before_date :: string where
  \<open>html_before_date =
     ''\<newline>'' @
     ''    <!DOCTYPE html>\<newline>'' @
     ''    <html>\<newline>'' @
     ''    <head>\<newline>'' @
     ''      <meta charset="UTF-8">\<newline>'' @
     ''      <style>\<newline>'' @
     ''        body {\<newline>'' @
     ''          font-family: Arial, sans-serif;\<newline>'' @
     ''          line-height: 1.6;\<newline>'' @
     ''          color: #333;\<newline>'' @
     ''          max-width: 800px;\<newline>'' @
     ''          margin: 0 auto;\<newline>'' @
     ''          padding: 20px;\<newline>'' @
     ''        }\<newline>'' @
     ''        .header {\<newline>'' @
     ''          background-color: #f4f4f4;\<newline>'' @
     ''          padding: 20px;\<newline>'' @
     ''          border-radius: 5px;\<newline>'' @
     ''          margin-bottom: 20px;\<newline>'' @
     ''        }\<newline>'' @
     ''        .content {\<newline>'' @
     ''          background-color: #ffffff;\<newline>'' @
     ''          padding: 20px;\<newline>'' @
     ''          border: 1px solid #ddd;\<newline>'' @
     ''          border-radius: 5px;\<newline>'' @
     ''        }\<newline>'' @
     ''        h1 {\<newline>'' @
     ''          color: #2c3e50;\<newline>'' @
     ''        }\<newline>'' @
     ''        h2 {\<newline>'' @
     ''          color: #34495e;\<newline>'' @
     ''          border-bottom: 2px solid #ecf0f1;\<newline>'' @
     ''          padding-bottom: 10px;\<newline>'' @
     ''        }\<newline>'' @
     ''        pre {\<newline>'' @
     ''          background-color: #f5f5f5;\<newline>'' @
     ''          padding: 10px;\<newline>'' @
     ''          border-radius: 3px;\<newline>'' @
     ''          overflow-x: auto;\<newline>'' @
     ''        }\<newline>'' @
     ''        .footer {\<newline>'' @
     ''          margin-top: 30px;\<newline>'' @
     ''          padding-top: 20px;\<newline>'' @
     ''          border-top: 1px solid #eee;\<newline>'' @
     ''          font-size: 12px;\<newline>'' @
     ''          color: #777;\<newline>'' @
     ''        }\<newline>'' @
     ''      </style>\<newline>'' @
     ''    </head>\<newline>'' @
     ''    <body>\<newline>'' @
     ''      <div class="header">\<newline>'' @
     ''        <h1>G'' @ [CHR 0xC3, CHR 0xBC] @ ''nl'' @ [CHR 0xC3, CHR 0xBC] @ ''k Rapor - ''\<close>

definition html_before_content :: string where
  \<open>html_before_content =
     ''</h1>\<newline>'' @
     ''      </div>\<newline>'' @
     ''      <div class="content">\<newline>'' @
     ''        ''\<close>

definition html_before_year :: string where
  \<open>html_before_year =
     ''\<newline>'' @
     ''      </div>\<newline>'' @
     ''      <div class="footer">\<newline>'' @
     ''        <p>Bu rapor otomatik olarak olu'' @ [CHR 0xC5, CHR 0x9F] @ ''turulmu'' @ [CHR 0xC5, CHR 0x9F] @ ''tur.</p>\<newline>'' @
     ''        <p>'' @ [CHR 0xC2, CHR 0xA9] @ '' ''\<close>

definition html_after_company :: string where
  \<open>html_after_company =
     ''</p>\<newline>'' @
     ''      </div>\<newline>'' @
     ''    </body>\<newline>'' @
     ''    </html>\<newline>'' @
     ''  ''\<close>

definition htmlContent :: "string \<Rightarrow> string \<Rightarrow> string \<Rightarrow> string \<Rightarrow> string" where
  "htmlContent date reportContent fullYear company =
     html_before_date @ date @ html_before_content @ reportContent @ html_before_year
       @ fullYear @ '' '' @ company @ html_after_company"

text \<open>\<^verbatim>\<open>typeof v === 'object' && v !== null\<close> and \<^verbatim>\<open>typeof v === 'string'\<close>.\<close>

fun is_object :: "json \<Rightarrow> bool" where
  "is_object (JObj kvs) = True"
| "is_object (JArr xs) = True"
| "is_object v = False"

fun is_string :: "json \<Rightarrow> bool" where
  "is_string (JStr s) = True"
| "is_string v = False"

text \<open>The choice of \<^verbatim>\<open>reportContent\<close> (the \<^verbatim>\<open>if\<close> chain of \<^verbatim>\<open>formatReport\<close>).\<close>

definition reportContent_of :: "json \<Rightarrow> js_error + json" where
  "reportContent_of output =
     (if is_object output then
        and_then (get output ''text'') (\<lambda>text.
          if truthy text then Inr text
          else and_then (get output ''report'') (\<lambda>report.
            if truthy report then Inr report
            else and_then (get output ''content'') (\<lambda>content.
              if truthy content then Inr content
              else Inr (JStr (''<pre>'' @ toStr (JSON_stringify ''  '' output) @ ''</pre>'')))))
      else if is_string output then Inr output
      else Inr (JStr (toStr output)))"

text \<open>
  \<^verbatim>\<open>formatReport(workflowOutput)\<close>. The function reads the clock twice, for the title
  and then for the footer; it has no other contact with the outside world.
\<close>

definition formatReport :: "config \<Rightarrow> world \<Rightarrow> json \<Rightarrow> state \<Rightarrow> (js_error + string) \<times> state" where
  "formatReport cfg w workflowOutput s =
     (case get workflowOutput ''outputs'' of
        Inl e \<Rightarrow> (Inl e, s)
      | Inr outputs \<Rightarrow>
          let output = or_else outputs workflowOutput;
              (d1, s1) = new_Date w s;
              date = toLocaleDateString_long d1
          in case reportContent_of output of
               Inl e \<Rightarrow> (Inl e, s1)
             | Inr reportContent \<Rightarrow>
                 let (d2, s2) = new_Date w s1
                 in (Inr (htmlContent date (toStr reportContent) (string_of_nat (getFullYear d2))
                            (env_or (COMPANY_NAME cfg) ([CHR 0xC5, CHR 0x9E] @ ''irketiniz''))),
                     s2))"

section \<open>sendEmail\<close>

definition sendEmail :: "config \<Rightarrow> world \<Rightarrow> string \<Rightarrow> state \<Rightarrow> (js_error + json) \<times> state" where
  "sendEmail cfg w reportContent s =
     (let (d, s1) = new_Date w s;
          mailOptions =
            \<lparr>mail_from = [CHR 0x22] @ env_or (EMAIL_FROM_NAME cfg) ''Daily Report System''
                          @ [CHR 0x22] @ '' <'' @ env_str (EMAIL_USER cfg) @ ''>'',
             mail_to = emailList cfg,
             mail_subject = ''G'' @ [CHR 0xC3, CHR 0xBC] @ ''nl'' @ [CHR 0xC3, CHR 0xBC] @ ''k Rapor - ''
                             @ toLocaleDateString d,
             mail_html = reportContent\<rparr>;
          (sent, s2) = sendMail w mailOptions s1;
          (r, s3) =
            (case and_then sent (\<lambda>info. and_then (get info ''messageId'') (\<lambda>messageId. Inr (info, messageId))) of
               Inl e \<Rightarrow> (Inl e, s2)
             | Inr (info, messageId) \<Rightarrow>
                 (Inr info, console_log [JStr ''Email sent successfully:'', messageId] s2))
      in case r of
           Inl error \<Rightarrow> (Inl error, console_error [JStr ''Error sending email:'', JStr (message error)] s3)
         | Inr info \<Rightarrow> (Inr info, s3))"

section \<open>runDailyReport\<close>

text \<open>The template literal of \<^verbatim>\<open>errorHtml\<close>, cut at its three interpolations.\<close>

definition errorHtml_before_date :: string where
  \<open>errorHtml_before_date =
     ''\<newline>'' @
     ''        <!DOCTYPE html>\<newline>'' @
     ''        <html>\<newline>'' @
     ''        <head>\<newline>'' @
     ''          <meta charset="UTF-8">\<newline>'' @
     ''          <style>\<newline>'' @
     ''            body { font-family: Arial, sans-serif; padding: 20px; }\<newline>'' @
     ''            .error { color: #d32f2f; }\<newline>'' @
     ''          </style>\<newline>'' @
     ''        </head>\<newline>'' @
     ''        <body>\<newline>'' @
     ''          <h2 class="error">Hata: G'' @ [CHR 0xC3, CHR 0xBC] @ ''nl'' @ [CHR 0xC3, CHR 0xBC] @ ''k Rapor Olu'' @ [CHR 0xC5, CHR 0x9F] @ ''turulamad'' @ [CHR 0xC4, CHR 0xB1] @ ''</h2>\<newline>'' @
     ''          <p><strong>Tarih:</strong> ''\<close>

definition errorHtml_before_message :: string where
  \<open>errorHtml_before_message =
     ''</p>\<newline>'' @
     ''          <p><strong>Hata Mesaj'' @ [CHR 0xC4, CHR 0xB1] @ '':</strong> ''\<close>

definition errorHtml_before_details :: string where
  \<open>errorHtml_before_details =
     ''</p>\<newline>'' @
     ''          <p><strong>Detaylar:</strong> ''\<close>

definition errorHtml_after_details :: string where
  \<open>errorHtml_after_details =
     ''</p>\<newline>'' @
     ''          <p>L'' @ [CHR 0xC3, CHR 0xBC] @ ''tfen sistem y'' @ [CHR 0xC3, CHR 0xB6] @ ''neticisi ile ileti'' @ [CHR 0xC5, CHR 0x9F] @ ''ime ge'' @ [CHR 0xC3, CHR 0xA7] @ ''in.</p>\<newline>'' @
     ''        </body>\<newline>'' @
     ''        </html>\<newline>'' @
     ''      ''\<close>

definition errorHtml_of :: "js_date \<Rightarrow> js_error \<Rightarrow> string" where
  "errorHtml_of d error =
     errorHtml_before_date @ toLocaleString d @ errorHtml_before_message @ message error
       @ errorHtml_before_details
       @ (if truthy (response_data error) then toStr (JSON_stringify [] (response_data error))
          else ''N/A'')
       @ errorHtml_after_details"

text \<open>
  Step 2 of the \<^verbatim>\<open>try\<close> block: the result of the run, taken from the first response or
  from polling (with the default 30 attempts, 10000 ms apart).
\<close>

definition finalOutput_of :: "config \<Rightarrow> world \<Rightarrow> json \<Rightarrow> state \<Rightarrow> (js_error + json) \<times> state" where
  "finalOutput_of cfg w workflowResult s =
     (case and_then (get workflowResult ''status'') (\<lambda>status.
             if status = JStr ''succeeded''
             then and_then (get workflowResult ''outputs'') (\<lambda>outputs. Inr (truthy outputs))
             else Inr False) of
        Inl e \<Rightarrow> (Inl e, s)
      | Inr True \<Rightarrow> (Inr workflowResult, s)
      | Inr False \<Rightarrow>
          (case get workflowResult ''workflow_run_id'' of
             Inl e \<Rightarrow> (Inl e, s)
           | Inr workflow_run_id \<Rightarrow>
               if truthy workflow_run_id then
                 waitForWorkflowCompletion cfg w workflow_run_id 30 10000
                   (console_log [JStr ''Workflow run ID:'', workflow_run_id] s)
               else (Inl (Error ''Invalid workflow response - no outputs or run ID''), s)))"

text \<open>The \<^verbatim>\<open>try\<close> block of \<^verbatim>\<open>runDailyReport\<close>.\<close>

definition runDailyReport_try :: "config \<Rightarrow> world \<Rightarrow> state \<Rightarrow> (js_error + unit) \<times> state" where
  "runDailyReport_try cfg w s =
     (case triggerDifyWorkflow cfg w s of
        (Inl e, s1) \<Rightarrow> (Inl e, s1)
      | (Inr workflowResult, s1) \<Rightarrow>
          (case finalOutput_of cfg w workflowResult
                  (console_log [JStr ''Workflow triggered successfully''] s1) of
             (Inl e, s2) \<Rightarrow> (Inl e, s2)
           | (Inr finalOutput, s2) \<Rightarrow>
               (case formatReport cfg w finalOutput
                       (console_log [JStr ''Workflow completed successfully''] s2) of
                  (Inl e, s3) \<Rightarrow> (Inl e, s3)
                | (Inr formattedReport, s3) \<Rightarrow>
                    (case sendEmail cfg w formattedReport s3 of
                       (Inl e, s4) \<Rightarrow> (Inl e, s4)
                     | (Inr info, s4) \<Rightarrow>
                         let (d, s5) = new_Date w s4
                         in (Inr (),
                             console_log [JStr (''['' @ toISOString d
                                                @ ''] Daily report completed successfully'')] s5)))))"

definition runDailyReport :: "config \<Rightarrow> world \<Rightarrow> state \<Rightarrow> (js_error + unit) \<times> state" where
  "runDailyReport cfg w s =
     (let (d0, s0) = new_Date w s;
          s1 = console_log [JStr (''['' @ toISOString d0 @ ''] Starting daily report generation...'')] s0
      in case runDailyReport_try cfg w s1 of
           (Inr u, s2) \<Rightarrow> (Inr (), s2)
         | (Inl error, s2) \<Rightarrow>
             let (d, s3) = new_Date w s2;
                 s4 = console_error [JStr (''['' @ toISOString d @ ''] Daily report failed:''),
                                     JStr (message error)] s3;
                 (d', s5) = new_Date w s4
             in case sendEmail cfg w (errorHtml_of d' error) s5 of
                  (Inr info, s6) \<Rightarrow> (Inr (), s6)
                | (Inl emailError, s6) \<Rightarrow>
                    (Inr (),
                     console_error [JStr ''Failed to send error notification:'',
                                    JStr (message emailError)] s6))"

section \<open>The manual trigger\<close>

record http_response =
  status_code :: nat
  body :: json

text \<open>The handler of \<^verbatim>\<open>POST /trigger\<close>.\<close>

definition post_trigger :: "config \<Rightarrow> world \<Rightarrow> state \<Rightarrow> http_response \<times> state" where
  "post_trigger cfg w s =
     (case runDailyReport cfg w s of
        (Inr u, s') \<Rightarrow>
          (\<lparr>status_code = 200, body = JObj [(''status'', JStr ''Report sent successfully'')]\<rparr>, s')
      | (Inl error, s') \<Rightarrow>
          (\<lparr>status_code = 500, body = JObj [(''error'', JStr (message error))]\<rparr>, s'))"

section \<open>Observations on a run\<close>










text \<open>The state in which the \<^verbatim>\<open>try\<close> block of \<^verbatim>\<open>runDailyReport\<close> starts.\<close>

definition started :: "world \<Rightarrow> state \<Rightarrow> state" where
  "started w s =
     console_log [JStr (''['' @ toISOString (clock w (ticks s)) @ ''] Starting daily report generation...'')]
       (s\<lparr>ticks := ticks s + 1\<rparr>)"

text \<open>The \<^verbatim>\<open>mailOptions\<close> that \<^verbatim>\<open>sendEmail\<close> builds when the clock reads \<open>d\<close>.\<close>

definition mailOptions_of :: "config \<Rightarrow> js_date \<Rightarrow> string \<Rightarrow> mail_options" where
  "mailOptions_of cfg d reportContent =
     \<lparr>mail_from = [CHR 0x22] @ env_or (EMAIL_FROM_NAME cfg) ''Daily Report System''
                   @ [CHR 0x22] @ '' <'' @ env_str (EMAIL_USER cfg) @ ''>'',
      mail_to = emailList cfg,
      mail_subject = ''G'' @ [CHR 0xC3, CHR 0xBC] @ ''nl'' @ [CHR 0xC3, CHR 0xBC] @ ''k Rapor - ''
                      @ toLocaleDateString d,
      mail_html = reportContent\<rparr>"




text \<open>The error notification that \<^verbatim>\<open>runDailyReport\<close> sends when its \<^verbatim>\<open>try\<close> block has
  thrown \<open>error\<close> in the state \<open>s2\<close>: the clock is read for the log line, for the document and
  for the subject of the mail.\<close>

definition notification :: "config \<Rightarrow> world \<Rightarrow> js_error \<Rightarrow> state \<Rightarrow> event" where
  "notification cfg w error s2 =
     SendMail (mailOptions_of cfg (clock w (ticks s2 + 2)) (errorHtml_of (clock w (ticks s2 + 1)) error))"


section \<open>Example runs\<close>

definition example_date :: js_date where
  "example_date = \<lparr>getFullYear = 2026, getMonth = 10, getDate = 3, getHours = 9, getMinutes = 5,
                    getSeconds = 7, toISOString = ''2026-11-03T06:05:07.000Z''\<rparr>"

definition example_config :: config where
  "example_config = \<lparr>DIFY_API_KEY = Some ''key'', DIFY_API_ENDPOINT = Some ''http://vm/v1'',
      DIFY_RESPONSE_MODE = None, DIFY_USER_ID = None, COMPANY_NAME = None, EMAIL_FROM_NAME = None,
      EMAIL_USER = Some ''bot@example.org'', emailList = [''ops@example.org'']\<rparr>"

definition initial_state :: state where
  "initial_state = \<lparr>posts = 0, gets = 0, mails = 0, ticks = 0, trace = []\<rparr>"

definition mail_accepted :: "nat \<Rightarrow> js_error + json" where
  "mail_accepted k = Inr (JObj [(''messageId'', JStr ''<1@example.org>'')])"

definition async_start :: "nat \<Rightarrow> js_error + json" where
  "async_start k = Inr (JObj [(''workflow_run_id'', JStr ''r1''), (''task_id'', JStr ''t1'')])"

text \<open>A run that is reported running twice and failed at the third poll.\<close>

definition world_failed_run :: world where
  "world_failed_run =
     \<lparr>post_results = async_start,
      get_results = (\<lambda>k. if k < 2 then Inr (JObj [(''status'', JStr ''running'')])
                         else Inr (JObj [(''status'', JStr ''failed''), (''error'', JStr ''boom'')])),
      mail_results = mail_accepted,
      clock = (\<lambda>k. example_date)\<rparr>"

text \<open>A run that is reported running for ever.\<close>

definition world_running :: world where
  "world_running =
     \<lparr>post_results = async_start,
      get_results = (\<lambda>k. Inr (JObj [(''status'', JStr ''running'')])),
      mail_results = mail_accepted,
      clock = (\<lambda>k. example_date)\<rparr>"


text \<open>The workflow engine refuses the connection; the mail transport works.\<close>

definition world_engine_down :: world where
  "world_engine_down =
     \<lparr>post_results = (\<lambda>k. Inl (AxiosError ''connect ECONNREFUSED'' JUndefined)),
      get_results = (\<lambda>k. Inl (AxiosError ''connect ECONNREFUSED'' JUndefined)),
      mail_results = mail_accepted,
      clock = (\<lambda>k. example_date)\<rparr>"



text \<open>Two clocks that read different times of the same day.\<close>

definition world_morning :: world where
  "world_morning = world_running\<lparr>clock := (\<lambda>k. example_date)\<rparr>"

definition world_evening :: world where
  "world_evening =
     world_failed_run\<lparr>clock := (\<lambda>k. example_date\<lparr>getHours := 21, getMinutes := 40 + k,
                                                  toISOString := ''2026-11-03T18:40:00.000Z''\<rparr>)\<rparr>"


section \<open>Properties\<close>

subsection \<open>Polling\<close>










text \<open>
  Claim C6. For a run identifier that is empty or absent (any falsy value),
  \<^verbatim>\<open>waitForWorkflowCompletion\<close> returns \<^verbatim>\<open>null\<close> at once: the state is unchanged, so no
  status request is made.
\<close>

theorem waitForWorkflowCompletion_no_run_id:
  "\<not> truthy workflowRunId \<Longrightarrow>
   waitForWorkflowCompletion cfg w workflowRunId maxAttempts delayMs s = (Inr JNull, s)"
  by (simp add: waitForWorkflowCompletion_def)




text \<open>C6 at the empty string and at \<^verbatim>\<open>undefined\<close>.\<close>

theorem waitForWorkflowCompletion_no_run_id_witness:
  "\<not> truthy (JStr []) \<and> \<not> truthy JUndefined
   \<and> waitForWorkflowCompletion example_config world_running (JStr []) 30 10000 initial_state
       = (Inr JNull, initial_state)
   \<and> waitForWorkflowCompletion example_config world_running JUndefined 30 10000 initial_state
       = (Inr JNull, initial_state)"
  using waitForWorkflowCompletion_no_run_id [of "JStr []" example_config world_running 30 10000 initial_state]
    waitForWorkflowCompletion_no_run_id [of JUndefined example_config world_running 30 10000 initial_state]
  by simp

subsection \<open>Formatting\<close>


lemma htmlContent_contains: "sublist reportContent (htmlContent date reportContent fullYear company)"
  unfolding htmlContent_def sublist_def
  by (intro exI [of _ "html_before_date @ date @ html_before_content"]
        exI [of _ "html_before_year @ fullYear @ '' '' @ company @ html_after_company"]) simp

text \<open>
  Claim C7. \<^verbatim>\<open>formatReport\<close> takes the report body from the first of the keys
  \<^verbatim>\<open>text\<close>, \<^verbatim>\<open>report\<close>, \<^verbatim>\<open>content\<close> whose value is truthy, and falls back to the
  serialized object between \<^verbatim>\<open><pre>\<close> tags when there is none. For the output
  \<^verbatim>\<open>{text: "Hello"}\<close> the content of the document is \<^verbatim>\<open>Hello\<close> itself, not the fallback;
  for \<^verbatim>\<open>{other: 1}\<close> it is the serialization of the whole object. The content is a part of
  the document as it stands.
\<close>

theorem formatReport_key_priority:
  \<open>reportContent_of (JObj kvs) =
     Inr (case find truthy (map (\<lambda>k. case map_of kvs k of None \<Rightarrow> JUndefined | Some v \<Rightarrow> v)
                              [''text'', ''report'', ''content'']) of
            Some v \<Rightarrow> v
          | None \<Rightarrow> JStr (''<pre>'' @ toStr (JSON_stringify ''  '' (JObj kvs)) @ ''</pre>''))
   \<and> reportContent_of (JObj [(''text'', JStr ''Hello'')]) = Inr (JStr ''Hello'')
   \<and> reportContent_of (JObj [(''text'', JStr ''Hello'')])
         \<noteq> Inr (JStr (''<pre>'' @ toStr (JSON_stringify ''  '' (JObj [(''text'', JStr ''Hello'')]))
                          @ ''</pre>''))
   \<and> fst (formatReport cfg w (JObj [(''text'', JStr ''Hello'')]) s)
         = Inr (htmlContent (toLocaleDateString_long (clock w (ticks s))) ''Hello''
                  (string_of_nat (getFullYear (clock w (ticks s + 1))))
                  (env_or (COMPANY_NAME cfg) ([CHR 0xC5, CHR 0x9E] @ ''irketiniz'')))
   \<and> reportContent_of (JObj [(''other'', JNum 1)])
         = Inr (JStr (''<pre>{\<newline>  "other": 1\<newline>}</pre>''))
   \<and> fst (formatReport cfg w (JObj [(''other'', JNum 1)]) s)
         = Inr (htmlContent (toLocaleDateString_long (clock w (ticks s)))
                  (''<pre>{\<newline>  "other": 1\<newline>}</pre>'')
                  (string_of_nat (getFullYear (clock w (ticks s + 1))))
                  (env_or (COMPANY_NAME cfg) ([CHR 0xC5, CHR 0x9E] @ ''irketiniz'')))
   \<and> sublist reportContent (htmlContent date reportContent fullYear company)\<close>
proof -
  have a: "reportContent_of (JObj [(''text'', JStr ''Hello'')]) = Inr (JStr ''Hello'')"
    by (simp add: reportContent_of_def and_then_def)
  have b: \<open>reportContent_of (JObj [(''other'', JNum 1)])
         = Inr (JStr (''<pre>{\<newline>  "other": 1\<newline>}</pre>''))\<close>
    by (simp add: reportContent_of_def and_then_def JSON_stringify_def quote_def escape_char_def
          string_of_int_def string_of_nat.simps digit_char_def)
  show ?thesis
    apply (intro conjI)
    subgoal by (simp add: reportContent_of_def and_then_def)
    subgoal by (rule a)
    subgoal by (simp add: a)
    subgoal by (simp add: formatReport_def a or_else_def new_Date_def)
    subgoal by (rule b)
    subgoal by (simp add: formatReport_def b or_else_def new_Date_def)
    subgoal by (rule htmlContent_contains)
    done
qed

text \<open>
  Claim C8. \<^verbatim>\<open>formatReport\<close> is deterministic for a fixed input and a fixed date: two calls
  with the same output and configuration, whose first clock readings fall on the same day and
  whose second readings fall in the same year, return the same document, whatever the time
  of day, the state and the answers of the outside world; and a call has no effect other
  than reading the clock.
\<close>

theorem formatReport_deterministic:
  assumes "getDate (clock w (ticks s)) = getDate (clock w' (ticks s'))"
    and "getMonth (clock w (ticks s)) = getMonth (clock w' (ticks s'))"
    and "getFullYear (clock w (ticks s)) = getFullYear (clock w' (ticks s'))"
    and "getFullYear (clock w (ticks s + 1)) = getFullYear (clock w' (ticks s' + 1))"
  shows "fst (formatReport cfg w workflowOutput s) = fst (formatReport cfg w' workflowOutput s')
       \<and> trace (snd (formatReport cfg w workflowOutput s)) = trace s
       \<and> posts (snd (formatReport cfg w workflowOutput s)) = posts s
       \<and> gets (snd (formatReport cfg w workflowOutput s)) = gets s
       \<and> mails (snd (formatReport cfg w workflowOutput s)) = mails s"
  using assms
  by (auto simp: formatReport_def new_Date_def toLocaleDateString_long_def Let_def
      split: sum.splits)

text \<open>C8 at two calls on 3 November 2026, one at 09:05 and one at 21:45, in different states.\<close>

theorem formatReport_deterministic_witness:
  "getHours (clock world_morning 0) \<noteq> getHours (clock world_evening 5)
   \<and> getDate (clock world_morning 0) = getDate (clock world_evening 5)
   \<and> fst (formatReport example_config world_morning (JObj [(''text'', JStr ''Hello'')]) initial_state)
     = fst (formatReport example_config world_evening (JObj [(''text'', JStr ''Hello'')])
              (initial_state\<lparr>ticks := 5, gets := 2\<rparr>))"
proof -
  let ?s' = "initial_state\<lparr>ticks := 5, gets := 2\<rparr>"
  have h1: "getDate (clock world_morning (ticks initial_state)) = getDate (clock world_evening (ticks ?s'))"
    by (simp add: world_morning_def world_evening_def example_date_def)
  have h2: "getMonth (clock world_morning (ticks initial_state)) = getMonth (clock world_evening (ticks ?s'))"
    by (simp add: world_morning_def world_evening_def example_date_def)
  have h3: "getFullYear (clock world_morning (ticks initial_state))
            = getFullYear (clock world_evening (ticks ?s'))"
    by (simp add: world_morning_def world_evening_def example_date_def)
  have h4: "getFullYear (clock world_morning (ticks initial_state + 1))
            = getFullYear (clock world_evening (ticks ?s' + 1))"
    by (simp add: world_morning_def world_evening_def example_date_def)
  have diff: "getHours (clock world_morning 0) \<noteq> getHours (clock world_evening 5)"
    by (simp add: world_morning_def world_evening_def example_date_def)
  have same: "getDate (clock world_morning 0) = getDate (clock world_evening 5)"
    by (simp add: world_morning_def world_evening_def example_date_def)
  show ?thesis
    using formatReport_deterministic [OF h1 h2 h3 h4, of example_config "JObj [(''text'', JStr ''Hello'')]"]
      diff same
    by simp
qed

subsection \<open>The error notification\<close>



subsection \<open>The manual trigger\<close>

lemma runDailyReport_never_throws: "fst (runDailyReport cfg w s) = Inr ()"
  by (auto simp: runDailyReport_def Let_def split: prod.splits sum.splits)

lemma post_trigger_always_200:
  "fst (post_trigger cfg w s)
     = \<lparr>status_code = 200, body = JObj [(''status'', JStr ''Report sent successfully'')]\<rparr>"
  using runDailyReport_never_throws [of cfg w s]
  by (auto simp: post_trigger_def split: prod.splits sum.splits)

lemma engine_down_try:
  "fst (runDailyReport_try example_config world_engine_down (started world_engine_down initial_state))
     = Inl (AxiosError ''connect ECONNREFUSED'' JUndefined)"
  by (simp add: runDailyReport_try_def triggerDifyWorkflow_def axios_post_def new_Date_def
        world_engine_down_def console_log_def console_error_def started_def initial_state_def Let_def)

text \<open>
  Claim C3, at a failing run. The workflow engine refuses the connection, so the \<^verbatim>\<open>try\<close>
  block of \<^verbatim>\<open>runDailyReport\<close> throws; the handler of \<^verbatim>\<open>POST /trigger\<close> still answers 200
  with \<^verbatim>\<open>{status: 'Report sent successfully'}\<close>, because \<^verbatim>\<open>runDailyReport\<close> has caught the
  error: the \<^verbatim>\<open>catch\<close> of the handler, which answers 500 with the message, is never reached.
\<close>

theorem post_trigger_failed_pipeline_200:
  "fst (runDailyReport_try example_config world_engine_down (started world_engine_down initial_state))
     = Inl (AxiosError ''connect ECONNREFUSED'' JUndefined)
   \<and> status_code (fst (post_trigger example_config world_engine_down initial_state)) = 200
   \<and> body (fst (post_trigger example_config world_engine_down initial_state))
       = JObj [(''status'', JStr ''Report sent successfully'')]"
  using engine_down_try post_trigger_always_200 [of example_config world_engine_down initial_state]
  by simp

subsection \<open>Blocking-mode results\<close>














subsection \<open>Responses without usable outputs\<close>










subsection \<open>Failures of the pipeline\<close>



























end
